theory Spec2Isabelle
  imports Complex_Main
begin

section \<open>Text\<close>

text \<open>
  A Python \<open>str\<close> is a sequence of Unicode code points, so text is a list of code points
  (natural numbers); \<open>asc\<close> turns an ASCII literal into such a text.
\<close>

type_synonym ustr = "nat list"

definition asc :: "string \<Rightarrow> ustr" where
  "asc s = map of_char s"

text \<open>\<open>starts k t\<close>: the text \<open>t\<close> begins with \<open>k\<close>.\<close>

fun starts :: "ustr \<Rightarrow> ustr \<Rightarrow> bool" where
  "starts [] t = True"
| "starts (a # k) [] = False"
| "starts (a # k) (b # t) = (a = b \<and> starts k t)"

text \<open>Python's \<open>k in t\<close> on strings: \<open>k\<close> occurs in \<open>t\<close> as a contiguous piece.\<close>

fun py_in :: "ustr \<Rightarrow> ustr \<Rightarrow> bool" where
  "py_in k [] = (k = [])"
| "py_in k (c # t) = (starts k (c # t) \<or> py_in k t)"

text \<open>
  \<open>str.lower()\<close>, on the ASCII letters. Python also folds the case of letters outside
  ASCII; that table is not part of the model, and no result below depends on it.
\<close>

definition lower_cp :: "nat \<Rightarrow> nat" where
  "lower_cp c = (if 65 \<le> c \<and> c \<le> 90 then c + 32 else c)"

definition py_lower :: "ustr \<Rightarrow> ustr" where
  "py_lower t = map lower_cp t"

text \<open>\<open>str.strip()\<close>: the code points for which \<open>str.isspace\<close> holds are dropped at both ends.\<close>

definition is_space :: "nat \<Rightarrow> bool" where
  "is_space c = (c \<in> set [9, 10, 11, 12, 13, 28, 29, 30, 31, 32, 133, 160, 5760, 8192, 8193,
     8194, 8195, 8196, 8197, 8198, 8199, 8200, 8201, 8202, 8232, 8233, 8239, 8287, 12288])"

definition py_strip :: "ustr \<Rightarrow> ustr" where
  "py_strip t = rev (dropWhile is_space (rev (dropWhile is_space t)))"


section \<open>Regular expressions of the prefilter\<close>

text \<open>
  The constructs the two age patterns use: one code point, a class of code points,
  sequence, alternative, \<open>?\<close> and \<open>*\<close> on one code point. \<open>rests r t\<close> lists what is left
  of \<open>t\<close> after each way of matching \<open>r\<close> at its start; \<open>re_search r t\<close> is
  \<open>re.search(r, t)\<close> read as a truth value: \<open>r\<close> matches at some position of \<open>t\<close>.
\<close>

datatype rx = Chr nat | Cls "nat list" | Seq rx rx | Alt rx rx | Opt rx | StarChr nat

fun rests :: "rx \<Rightarrow> ustr \<Rightarrow> ustr list" where
  "rests (Chr c) t = (case t of [] \<Rightarrow> [] | x # xs \<Rightarrow> if x = c then [xs] else [])"
| "rests (Cls cs) t = (case t of [] \<Rightarrow> [] | x # xs \<Rightarrow> if x \<in> set cs then [xs] else [])"
| "rests (Seq a b) t = concat (map (rests b) (rests a t))"
| "rests (Alt a b) t = rests a t @ rests b t"
| "rests (Opt a) t = rests a t @ [t]"
| "rests (StarChr c) t = map (\<lambda>n. drop n t) (rev [0..<Suc (length (takeWhile (\<lambda>x. x = c) t))])"

fun re_search :: "rx \<Rightarrow> ustr \<Rightarrow> bool" where
  "re_search r [] = (rests r [] \<noteq> [])"
| "re_search r (c # t) = (rests r (c # t) \<noteq> [] \<or> re_search r t)"

definition lit :: "ustr \<Rightarrow> rx" where
  "lit t = foldr (\<lambda>c r. Seq (Chr c) r) (butlast t) (Chr (last t))"


section \<open>Prefilter\<close>

definition EN_HINTS :: "ustr list" where
  "EN_HINTS = map asc [''elderly'', ''senior'', ''older adult'', ''grandma'', ''grandpa'',
     ''aging parent'', ''nursing home'', ''retirement home'', ''assisted living'', ''dementia'',
     ''alzheimer'', ''parkinson'', ''65-year-old'', ''70-year-old'']"

text \<open>The last entry, \<open>[23681]\<close>, is the single character for "years of age" (U+5C81).\<close>

definition CN_HINTS :: "ustr list" where
  "CN_HINTS = [[32769, 20154], [32769, 24180], [38271, 32773], [29420, 23621, 32769, 20154],
     [31354, 24034, 32769, 20154], [20859, 32769, 38498], [32769, 20154, 38498],
     [25252, 29702, 38498], [36193, 20859], [30475, 25252], [29031, 25252], [22833, 26234],
     [38463, 23572, 33576, 28023, 40664], [24085, 37329, 26862], [39640, 40836],
     [29239, 29239], [22902, 22902], [22806, 20844], [22806, 23110], [31062, 29238],
     [31062, 27597], [23681]]"

definition SUI :: ustr where
  "SUI = [23681]"

text \<open>
  The source writes both patterns as raw strings in which every backslash is doubled
  (lines 138 and 141): where an age pattern would have the word boundary, the digit
  class and the white-space class, the source has two backslashes and then the letter
  b, d or s. In a raw string two backslashes are two characters, and the regular
  expression reads them as one literal backslash. So the patterns ask for a backslash
  (code point 92) followed by the letter b (98), a digit 6 to 9, a backslash, the
  letter d (100), a backslash and any number of the letter s (115), and so on.
\<close>

definition AGE_EN :: rx where
  "AGE_EN =
     Seq (Chr 92) (Seq (Chr 98)
    (Seq (Cls (asc ''6789''))
    (Seq (Chr 92) (Seq (Chr 100)
    (Seq (Chr 92)
    (Seq (StarChr 115)
    (Seq (Opt (Alt (lit (asc ''year'')) (Alt (lit (asc ''yrs'')) (Alt (lit (asc ''yo'')) (lit (asc ''y/o''))))))
    (Seq (Opt (Cls (asc ''- '')))
    (Seq (lit (asc ''old''))
    (Seq (Chr 92) (Chr 98)))))))))))"

definition AGE_CN :: rx where
  "AGE_CN =
     Seq (Cls (asc ''6789''))
    (Seq (Chr 92) (Seq (Chr 100)
    (Seq (Chr 92)
    (Seq (StarChr 115)
         (Chr 23681)))))"

definition maybe_elderly :: "ustr \<Rightarrow> bool" where
  "maybe_elderly text =
     (let low = py_lower text in
      if list_ex (\<lambda>k. py_in k low) EN_HINTS then True
      else if list_ex (\<lambda>k. py_in k text) CN_HINTS then True
      else if re_search AGE_EN low then True
      else if re_search AGE_CN text then True
      else False)"


section \<open>The output file\<close>

text \<open>
  The output file is the list of rows that \<open>csv.reader\<close> yields for it, header first; a
  row is a list of cells. The empty list is the file that does not exist or has size 0.
  Quoting and line ends are the csv module's business and are not modelled.
  A cell is the text \<open>s\<close> (\<open>Txt s\<close>), or the text that Python writes for the float \<open>x\<close>
  (\<open>Flt x\<close>): the digits of a float are not modelled, only that reading them back gives
  \<open>x\<close> and that such a text is never an integer literal (it has a point, an exponent,
  \<open>inf\<close> or \<open>nan\<close>). Floats are modelled by the real numbers they denote.
\<close>

datatype cell = Txt ustr | Flt real

type_synonym csv_row = "cell list"
type_synonym csv_file = "csv_row list"

text \<open>\<open>str(i)\<close> for an index \<open>i\<close>: its decimal digits.\<close>

fun str_nat :: "nat \<Rightarrow> ustr" where
  "str_nat n = (if n < 10 then [48 + n] else str_nat (n div 10) @ [48 + n mod 10])"

declare str_nat.simps [simp del]

text \<open>
  \<open>int(s)\<close> on a text of ASCII characters: white space is dropped at both ends, a sign
  may come first, then decimal digits, where one underscore may stand between two
  digits. \<open>None\<close> is the \<open>ValueError\<close>. (On a text with characters outside ASCII Python
  also takes the decimal digits and spaces of other scripts; the model does not.)
\<close>

definition is_digit :: "nat \<Rightarrow> bool" where
  "is_digit c = (48 \<le> c \<and> c \<le> 57)"

definition c_space :: "nat \<Rightarrow> bool" where
  "c_space c = (c \<in> set [9, 10, 11, 12, 13, 32])"

fun digits_val :: "bool \<Rightarrow> ustr \<Rightarrow> nat \<Rightarrow> nat option" where
  "digits_val prev [] acc = (if prev then Some acc else None)"
| "digits_val prev (c # t) acc =
     (if is_digit c then digits_val True t (10 * acc + (c - 48))
      else if c = 95 \<and> prev then digits_val False t acc
      else None)"

definition py_int :: "ustr \<Rightarrow> int option" where
  "py_int s =
     (case rev (dropWhile c_space (rev (dropWhile c_space s))) of
        [] \<Rightarrow> None
      | c # t \<Rightarrow>
          if c = 45 then map_option (\<lambda>n. - int n) (digits_val False t 0)
          else if c = 43 then map_option int (digits_val False t 0)
          else map_option int (digits_val False (c # t) 0))"

definition int_of_cell :: "cell \<Rightarrow> int option" where
  "int_of_cell c = (case c of Txt s \<Rightarrow> py_int s | Flt x \<Rightarrow> None)"

text \<open>
  \<open>csv.DictReader\<close>: the first row gives the field names; a data row becomes the
  dictionary that pairs the names with the row's cells in order, and a name beyond the
  end of a short row gets the value \<open>None\<close>. A later assignment to the same key wins.
  (The cells of a long row beyond the names go under the key \<open>None\<close>, which is never
  looked up.) Rows without any cell are not returned.
\<close>

definition dict_row :: "csv_row \<Rightarrow> csv_row \<Rightarrow> (cell \<times> cell option) list" where
  "dict_row names r = zip names (map Some r) @ map (\<lambda>k. (k, None)) (drop (length r) names)"

definition dict_get :: "(cell \<times> cell option) list \<Rightarrow> cell \<Rightarrow> cell option option" where
  "dict_get d k = map_of (rev d) k"

text \<open>
  The body of the checkpoint loop (lines 186 to 189): \<open>int(row["row_id"])\<close>, where a
  missing key, a \<open>None\<close> value and an unreadable text all raise and are passed over.
\<close>

definition scan_row :: "csv_row \<Rightarrow> csv_row \<Rightarrow> int option" where
  "scan_row names r =
     (case dict_get (dict_row names r) (Txt (asc ''row_id'')) of
        Some (Some c) \<Rightarrow> int_of_cell c
      | _ \<Rightarrow> None)"

definition scanned_ids :: "csv_file \<Rightarrow> int list" where
  "scanned_ids f =
     (case f of
        [] \<Rightarrow> []
      | names # rows \<Rightarrow> List.map_filter (scan_row names) (filter (\<lambda>r. r \<noteq> []) rows))"

definition load_done_ids :: "csv_file \<Rightarrow> int set" where
  "load_done_ids f = set (scanned_ids f)"



section \<open>Classifying one row\<close>

record out_row =
  row_id :: nat
  label :: ustr
  confidence :: real
  reason :: ustr
  title :: ustr
  content :: ustr

text \<open>The keys of \<open>out\<close> in order, and the cells \<open>writerow\<close> writes for it.\<close>

definition HEADER :: csv_row where
  "HEADER = map (\<lambda>k. Txt (asc k))
     [''row_id'', ''label'', ''confidence'', ''reason'', ''title'', ''content'']"

definition cells :: "out_row \<Rightarrow> csv_row" where
  "cells out = [Txt (str_nat (row_id out)), Txt (label out), Flt (confidence out),
                Txt (reason out), Txt (title out), Txt (content out)]"

text \<open>
  What one pass through the \<open>try\<close> block meets. \<open>Raises\<close>: the request, the indexing of
  the reply, \<open>json.loads\<close> or \<open>parsed.get\<close> raises. \<open>Object l c r\<close>: the reply's content
  is a JSON object; \<open>l\<close> and \<open>r\<close> are the values under \<open>label\<close> and \<open>reason\<close> (as the text
  the csv writer stores for them) when the key is there, and \<open>c\<close> tells what \<open>float\<close>
  makes of the value under \<open>confidence\<close>.
\<close>

datatype conf_in = ConfAbsent | ConfFloat real | ConfBad

datatype response = Raises | Object "ustr option" conf_in "ustr option"

fun try_body :: "nat \<Rightarrow> ustr \<Rightarrow> ustr \<Rightarrow> response \<Rightarrow> out_row option" where
  "try_body i t c Raises = None"
| "try_body i t c (Object l ConfBad r) = None"
| "try_body i t c (Object l cf r) =
     Some \<lparr>row_id = i,
           label = (case l of Some x \<Rightarrow> x | None \<Rightarrow> asc ''uncertain''),
           confidence = (case cf of ConfFloat x \<Rightarrow> x | _ \<Rightarrow> 0),
           reason = (case r of Some x \<Rightarrow> x | None \<Rightarrow> []),
           title = t, content = c\<rparr>"

text \<open>
  The events of a run, in order: the prefilter is evaluated for a row (with its answer),
  the service is called for a row (with the attempt number), the process sleeps a
  number of seconds, a row is written.
\<close>

datatype event = Prefilter nat bool | ApiCall nat nat | Sleep nat | Write nat

text \<open>
  The state of a run: the output file, whether the \<open>DictWriter\<close> has been made, the
  number of calls to the service so far, and the events so far. The service is a
  function from the number of earlier calls to what the next call meets; it stands
  for everything outside the program, so the prompt (the text of the row, cut to 4000
  characters) is not built: whatever the service makes of it is one such function.
\<close>

record pstate =
  ofile :: csv_file
  writer :: bool
  calls :: nat
  log :: "event list"

text \<open>
  Lines 219 to 236: \<open>for attempt in range(5)\<close> with the \<open>try\<close> block, \<open>break\<close> on success
  and a sleep of \<open>2 ** attempt\<close> seconds after a failure; \<open>None\<close> is the loop's \<open>else\<close>.
\<close>

fun retry :: "(nat \<Rightarrow> response) \<Rightarrow> nat \<Rightarrow> ustr \<Rightarrow> ustr \<Rightarrow> nat list \<Rightarrow> pstate
                \<Rightarrow> out_row option \<times> pstate" where
  "retry api i t c [] s = (None, s)"
| "retry api i t c (a # as) s =
     (let s1 = s\<lparr>calls := calls s + 1, log := log s @ [ApiCall i a]\<rparr> in
      case try_body i t c (api (calls s)) of
        Some out \<Rightarrow> (Some out, s1)
      | None \<Rightarrow> retry api i t c as (s1\<lparr>log := log s1 @ [Sleep (2 ^ a)]\<rparr>))"

text \<open>
  Lines 200 to 246, from the text of the row to its \<open>out\<close>: the prefilter, and for a
  row that passes it the attempts and the fallback row.
\<close>

definition classify :: "(nat \<Rightarrow> response) \<Rightarrow> nat \<Rightarrow> ustr \<Rightarrow> ustr \<Rightarrow> pstate
                \<Rightarrow> out_row \<times> pstate" where
  "classify api i t c s =
     (let text = py_strip (t @ [10, 10] @ c);
          m = maybe_elderly text;
          s0 = s\<lparr>log := log s @ [Prefilter i m]\<rparr> in
      if \<not> m then
        (\<lparr>row_id = i, label = asc ''not_elderly'', confidence = 3 / 10,
          reason = asc ''keyword prefilter negative'', title = t, content = c\<rparr>, s0)
      else
        (case retry api i t c [0..<5] s0 of
           (Some out, s1) \<Rightarrow> (out, s1)
         | (None, s1) \<Rightarrow>
             (\<lparr>row_id = i, label = asc ''uncertain'', confidence = 0,
               reason = asc ''API failed'', title = t, content = c\<rparr>, s1)))"

text \<open>Lines 249 to 253: the writer is made at the first write, with a header for an empty file.\<close>

definition write_row :: "out_row \<Rightarrow> pstate \<Rightarrow> pstate" where
  "write_row out s =
     s\<lparr>ofile := ofile s @ (if \<not> writer s \<and> ofile s = [] then [HEADER] else []) @ [cells out],
       writer := True,
       log := log s @ [Write (row_id out)]\<rparr>"


section \<open>The input table and the run\<close>

text \<open>
  A value of the input table, as far as the pipeline looks at it: the text \<open>str\<close> gives
  for it and whether it counts as true (a missing value is \<open>nan\<close>, which counts as true).
  The table has its column names and its rows; the index of a row is its position.
\<close>

record pval =
  shown :: ustr
  truthy :: bool

record table =
  columns :: "ustr list"
  rows :: "pval list list"

text \<open>\<open>str(row.get(k, "") or "")\<close>.\<close>

definition get_text :: "ustr list \<Rightarrow> pval list \<Rightarrow> ustr \<Rightarrow> ustr" where
  "get_text cols r k =
     (case map_of (zip cols r) k of
        Some v \<Rightarrow> if truthy v then shown v else []
      | None \<Rightarrow> [])"

text \<open>The body of the loop for a row that is not skipped (lines 198 to 253).\<close>

definition process_row :: "(nat \<Rightarrow> response) \<Rightarrow> ustr list \<Rightarrow> nat \<Rightarrow> pval list \<Rightarrow> pstate
                \<Rightarrow> pstate" where
  "process_row api cols i r s =
     (let (out, s1) = classify api i (get_text cols r (asc ''title''))
                        (get_text cols r (asc ''content'')) s
      in write_row out s1)"

text \<open>
  Lines 194 to 253: \<open>for i, row in df.iterrows()\<close>, where \<open>i\<close> is the position of the row
  (the index \<open>pd.read_csv\<close> gives a table), and a row found by the checkpoint scan is
  passed over.
\<close>

fun loop :: "(nat \<Rightarrow> response) \<Rightarrow> int set \<Rightarrow> ustr list \<Rightarrow> (nat \<times> pval list) list \<Rightarrow> pstate
                \<Rightarrow> pstate" where
  "loop api done_ids cols [] s = s"
| "loop api done_ids cols ((i, r) # rest) s =
     (if int i \<in> done_ids then loop api done_ids cols rest s
      else loop api done_ids cols rest (process_row api cols i r s))"

text \<open>
  Lines 256 to 259. \<open>pd.read_csv\<close> raises \<open>EmptyDataError\<close> on a file of size 0. On a
  table of the shape the pipeline writes (its header, six cells in every row, a float
  under \<open>confidence\<close>) the subset is the rows with the label \<open>elderly\<close> and a confidence of
  at least the threshold; the subset keeps the rows as they stand in the full file
  (pandas writes some cells in another form, which is not modelled). What pandas makes
  of any other table is not followed: the model reports \<open>OtherTable\<close>.
\<close>

datatype error = ConfigurationError | InputSchemaError | EmptyDataError | OtherTable

fun full_row :: "csv_row \<Rightarrow> bool" where
  "full_row [a, l, Flt x, r, t, c] = True"
| "full_row _ = False"

fun confident :: "real \<Rightarrow> csv_row \<Rightarrow> bool" where
  "confident thr [a, l, Flt x, r, t, c] = (l = Txt (asc ''elderly'') \<and> thr \<le> x)"
| "confident thr _ = False"

definition confident_subset :: "real \<Rightarrow> csv_file \<Rightarrow> error + csv_file" where
  "confident_subset thr f =
     (case f of
        [] \<Rightarrow> Inl EmptyDataError
      | h # data \<Rightarrow>
          if h = HEADER \<and> list_all full_row data
          then Inr (HEADER # filter (confident thr) data)
          else Inl OtherTable)"

text \<open>
  The two files of a run, and what a run leaves: how it ended (\<open>None\<close>: it came to its
  end), the files, the events and the number of calls to the service. The subset file
  has a fixed name in the directory of the output file; the two are taken to be
  different files.
\<close>

record files =
  out_file :: csv_file
  subset_file :: csv_file

record result =
  status :: "error option"
  after :: files
  events :: "event list"
  api_calls :: nat

text \<open>
  \<open>run\<close> (lines 165 to 259): the two guards, each a \<open>SystemExit\<close> before any file is
  touched; the checkpoint scan; the loop; the subset.
\<close>

definition run :: "ustr \<Rightarrow> table \<Rightarrow> (nat \<Rightarrow> response) \<Rightarrow> real \<Rightarrow> files \<Rightarrow> result" where
  "run api_key inp api min_conf fs =
     (if api_key = [] then
        \<lparr>status = Some ConfigurationError, after = fs, events = [], api_calls = 0\<rparr>
      else if asc ''title'' \<notin> set (columns inp) \<or> asc ''content'' \<notin> set (columns inp) then
        \<lparr>status = Some InputSchemaError, after = fs, events = [], api_calls = 0\<rparr>
      else
        let done_ids = load_done_ids (out_file fs);
            s = loop api done_ids (columns inp) (zip [0..<length (rows inp)] (rows inp))
                  \<lparr>ofile = out_file fs, writer = False, calls = 0, log = []\<rparr>
        in case confident_subset min_conf (ofile s) of
             Inl e \<Rightarrow>
               \<lparr>status = Some e, after = fs\<lparr>out_file := ofile s\<rparr>,
                events = log s, api_calls = calls s\<rparr>
           | Inr sub \<Rightarrow>
               \<lparr>status = None, after = \<lparr>out_file = ofile s, subset_file = sub\<rparr>,
                events = log s, api_calls = calls s\<rparr>)"


text \<open>The state in which the loop of a run ends.\<close>

definition final :: "table \<Rightarrow> (nat \<Rightarrow> response) \<Rightarrow> files \<Rightarrow> pstate" where
  "final inp api fs =
     loop api (load_done_ids (out_file fs)) (columns inp) (zip [0..<length (rows inp)] (rows inp))
       \<lparr>ofile = out_file fs, writer = False, calls = 0, log = []\<rparr>"


section \<open>Notions of the claims\<close>

text \<open>The indices of the rows written, as the events of a run tell them.\<close>

fun writes :: "event list \<Rightarrow> nat list" where
  "writes [] = []"
| "writes (Write i # es) = i # writes es"
| "writes (e # es) = writes es"

text \<open>
  An output file that a run over an input of \<open>n\<close> rows can be started against: there is
  no file yet, or the file is what earlier runs over this input have written, that is
  the header and then full rows, each with a readable \<open>row_id\<close> below \<open>n\<close>, no two alike.
\<close>

definition resumable :: "nat \<Rightarrow> csv_file \<Rightarrow> bool" where
  "resumable n f =
     (f = [] \<or>
      (hd f = HEADER \<and> list_all full_row (tl f) \<and>
       list_all (\<lambda>r. scan_row HEADER r \<noteq> None) (tl f) \<and>
       distinct (scanned_ids f) \<and>
       list_all (\<lambda>i. 0 \<le> i \<and> i < int n) (scanned_ids f)))"


section \<open>Sample inputs\<close>

text \<open>
  Two input rows under the columns \<open>title\<close> and \<open>content\<close>, a service whose fifth call
  is the first to succeed, and the state a run starts in when there is no output file.
\<close>

definition car_row :: "pval list" where
  "car_row = [\<lparr>shown = asc ''car trouble'', truthy = True\<rparr>,
              \<lparr>shown = asc ''my car broke down'', truthy = True\<rparr>]"






definition empty_table :: table where
  "empty_table = \<lparr>columns = [asc ''title'', asc ''content''], rows = []\<rparr>"

definition key0 :: ustr where
  "key0 = asc ''sk-test''"

definition no_files :: files where
  "no_files = \<lparr>out_file = [], subset_file = []\<rparr>"





section \<open>The prefilter\<close>

lemmas prefilter_defs = maybe_elderly_def py_lower_def lower_cp_def asc_def EN_HINTS_def
  CN_HINTS_def AGE_EN_def AGE_CN_def lit_def

text \<open>
  Claim C10. For every text in which the character U+5C81 ("years of age") occurs
  anywhere, with or without a number beside it, \<open>maybe_elderly\<close> returns true: the
  character is itself one of the keywords of \<open>CN_HINTS\<close>, so the answer does not depend
  on any age.
\<close>

theorem maybe_elderly_sui: "py_in SUI text \<Longrightarrow> maybe_elderly text"
  by (simp add: maybe_elderly_def CN_HINTS_def SUI_def Let_def)

theorem maybe_elderly_sui_witness: "py_in SUI (asc ''3'' @ SUI) \<and> maybe_elderly (asc ''3'' @ SUI)"
  using maybe_elderly_sui [of "asc ''3'' @ SUI"] by (simp add: asc_def SUI_def)

text \<open>
  Claim C4. The claim asks that every text with an age of the form "NN-year-old", NN
  from 60 to 99, passes the prefilter. On the text \<open>82-year-old\<close> the function returns
  false: no keyword occurs in it, and the English age pattern, written with doubled
  backslashes, asks for literal backslashes that the text does not have.
\<close>

theorem maybe_elderly_82_year_old: "\<not> maybe_elderly (asc ''82-year-old'')"
  by (simp add: prefilter_defs)


section \<open>Reading back a written index\<close>










section \<open>The checkpoint scan\<close>















section \<open>One row and the loop\<close>

lemma writes_append: "writes (xs @ ys) = writes xs @ writes ys"
  by (induction xs rule: writes.induct) auto

lemma try_body_row_id: "try_body i t c r = Some out \<Longrightarrow> row_id out = i"
  by (cases "(i, t, c, r)" rule: try_body.cases) auto

lemma retry_keeps:
  "retry api i t c as s = (res, s') \<Longrightarrow>
   ofile s' = ofile s \<and> writer s' = writer s \<and> writes (log s') = writes (log s) \<and>
   (\<forall>out. res = Some out \<longrightarrow> row_id out = i)"
proof (induction as arbitrary: s)
  case Nil
  then show ?case by simp
next
  case (Cons a as)
  show ?case
  proof (cases "try_body i t c (api (calls s))")
    case None
    with Cons.prems have "retry api i t c as
        (s\<lparr>calls := calls s + 1, log := log s @ [ApiCall i a, Sleep (2 ^ a)]\<rparr>) = (res, s')"
      by (simp add: Let_def)
    from Cons.IH [OF this] show ?thesis by (simp add: writes_append)
  next
    case (Some out)
    with Cons.prems show ?thesis
      by (auto simp: Let_def writes_append dest: try_body_row_id)
  qed
qed

lemma classify_keeps:
  assumes "classify api i t c s = (out, s')"
  shows "row_id out = i \<and> ofile s' = ofile s \<and> writer s' = writer s \<and>
         writes (log s') = writes (log s)"
proof (cases "maybe_elderly (py_strip (t @ [10, 10] @ c))")
  case False
  with assms show ?thesis by (auto simp: classify_def Let_def writes_append)
next
  case True
  obtain res s1 where r: "retry api i t c [0..<5]
      (s\<lparr>log := log s @ [Prefilter i True]\<rparr>) = (res, s1)"
    by (cases "retry api i t c [0..<5] (s\<lparr>log := log s @ [Prefilter i True]\<rparr>)") auto
  from retry_keeps [OF r] True assms r show ?thesis
    by (cases res) (auto simp: classify_def Let_def writes_append)
qed

lemma process_row_classify:
  "classify api i (get_text cols r (asc ''title'')) (get_text cols r (asc ''content'')) s = (out, s1)
   \<Longrightarrow> process_row api cols i r s = write_row out s1"
  by (simp add: process_row_def)

lemma process_row_file:
  "\<exists>out. row_id out = i \<and>
     ofile (process_row api cols i r s) =
       ofile s @ (if \<not> writer s \<and> ofile s = [] then [HEADER] else []) @ [cells out] \<and>
     writer (process_row api cols i r s) \<and>
     writes (log (process_row api cols i r s)) = writes (log s) @ [i]"
proof -
  obtain out s1 where c: "classify api i (get_text cols r (asc ''title''))
      (get_text cols r (asc ''content'')) s = (out, s1)"
    by (cases "classify api i (get_text cols r (asc ''title''))
      (get_text cols r (asc ''content'')) s") auto
  from classify_keeps [OF c] process_row_classify [OF c] show ?thesis
    by (auto simp: write_row_def writes_append intro!: exI [of _ out])
qed

lemma loop_file:
  "\<exists>outs. map row_id outs = [i \<leftarrow> map fst irs. int i \<notin> done_ids] \<and>
     ofile (loop api done_ids cols irs s) =
       ofile s @ (if outs \<noteq> [] \<and> \<not> writer s \<and> ofile s = [] then [HEADER] else []) @ map cells outs \<and>
     writes (log (loop api done_ids cols irs s)) = writes (log s) @ map row_id outs"
proof (induction irs arbitrary: s)
  case Nil
  show ?case by simp
next
  case (Cons ir irs)
  obtain i r where ir: "ir = (i, r)" by (cases ir) auto
  show ?case
  proof (cases "int i \<in> done_ids")
    case True
    with Cons [of s] ir show ?thesis by simp
  next
    case False
    let ?s2 = "process_row api cols i r s"
    obtain out where o: "row_id out = i"
      "ofile ?s2 = ofile s @ (if \<not> writer s \<and> ofile s = [] then [HEADER] else []) @ [cells out]"
      "writer ?s2" "writes (log ?s2) = writes (log s) @ [i]"
      using process_row_file [of i api cols r s] by blast
    obtain outs where os: "map row_id outs = [i \<leftarrow> map fst irs. int i \<notin> done_ids]"
      "ofile (loop api done_ids cols irs ?s2) = ofile ?s2 @ map cells outs"
      "writes (log (loop api done_ids cols irs ?s2)) = writes (log ?s2) @ map row_id outs"
      using Cons [of ?s2] o(3) by auto
    show ?thesis
      using False ir o os by (intro exI [of _ "out # outs"]) simp
  qed
qed








lemma classify_negative:
  assumes "\<not> maybe_elderly (py_strip (t @ [10, 10] @ c))"
  shows "classify api i t c s =
           (\<lparr>row_id = i, label = asc ''not_elderly'', confidence = 3 / 10,
             reason = asc ''keyword prefilter negative'', title = t, content = c\<rparr>,
            s\<lparr>log := log s @ [Prefilter i False]\<rparr>)"
  using assms by (simp add: classify_def Let_def)

lemma car_text: "\<not> maybe_elderly (py_strip (asc ''car trouble'' @ [10, 10] @ asc ''my car broke down''))"
  by (simp add: prefilter_defs py_strip_def is_space_def)


lemma car_row_text:
  "get_text [asc ''title'', asc ''content''] car_row (asc ''title'') = asc ''car trouble''"
  "get_text [asc ''title'', asc ''content''] car_row (asc ''content'') = asc ''my car broke down''"
  by (simp_all add: get_text_def car_row_def asc_def)



text \<open>
  Claim C3, as amended. A row whose text the prefilter rejects is written with the
  label \<open>not_elderly\<close>, the confidence 0.3 and the reason \<open>keyword prefilter negative\<close>;
  the service is not called for it: the number of calls stays as it was and the only
  events are the evaluation of the prefilter and the write.
\<close>

theorem prefilter_negative_row:
  assumes "get_text cols r (asc ''title'') = t" and "get_text cols r (asc ''content'') = c"
    and "\<not> maybe_elderly (py_strip (t @ [10, 10] @ c))"
  shows "process_row api cols i r s =
           write_row \<lparr>row_id = i, label = asc ''not_elderly'', confidence = 3 / 10,
               reason = asc ''keyword prefilter negative'', title = t, content = c\<rparr>
             (s\<lparr>log := log s @ [Prefilter i False]\<rparr>) \<and>
         calls (process_row api cols i r s) = calls s \<and>
         log (process_row api cols i r s) = log s @ [Prefilter i False, Write i]"
  using assms classify_negative [of t c api i s]
  by (simp add: process_row_def write_row_def)

theorem prefilter_negative_row_witness:
  "\<not> maybe_elderly (py_strip (asc ''car trouble'' @ [10, 10] @ asc ''my car broke down'')) \<and>
   process_row (\<lambda>n. Raises) [asc ''title'', asc ''content''] 8 car_row
       \<lparr>ofile = [], writer = False, calls = 0, log = []\<rparr> =
     \<lparr>ofile = [HEADER, cells \<lparr>row_id = 8, label = asc ''not_elderly'', confidence = 3 / 10,
               reason = asc ''keyword prefilter negative'', title = asc ''car trouble'',
               content = asc ''my car broke down''\<rparr>],
      writer = True, calls = 0, log = [Prefilter 8 False, Write 8]\<rparr>"
  using prefilter_negative_row [OF car_row_text car_text, of "\<lambda>n. Raises" 8 "\<lparr>ofile = [], writer = False, calls = 0, log = []\<rparr>"]
    car_text
  by (simp add: write_row_def)

text \<open>
  The claim as stated fails on the row of the specification's own example: its reason
  is not the text \<open>heuristic negative\<close>.
\<close>

theorem prefilter_negative_reason:
  "\<not> maybe_elderly (py_strip (asc ''car trouble'' @ [10, 10] @ asc ''my car broke down'')) \<and>
   reason (fst (classify (\<lambda>n. Raises) 8 (asc ''car trouble'') (asc ''my car broke down'')
       \<lparr>ofile = [], writer = False, calls = 0, log = []\<rparr>)) \<noteq> asc ''heuristic negative''"
proof -
  have "reason (fst (classify (\<lambda>n. Raises) 8 (asc ''car trouble'') (asc ''my car broke down'')
       \<lparr>ofile = [], writer = False, calls = 0, log = []\<rparr>)) = asc ''keyword prefilter negative''"
    by (simp add: classify_negative [OF car_text])
  moreover have "asc ''keyword prefilter negative'' \<noteq> asc ''heuristic negative''"
    by (simp add: asc_def)
  ultimately show ?thesis using car_text by simp
qed





section \<open>The run\<close>





lemma full_row_cells: "full_row (cells out)"
  by (simp add: cells_def)




lemma run_final:
  assumes "api_key \<noteq> []" "asc ''title'' \<in> set (columns inp)" "asc ''content'' \<in> set (columns inp)"
  shows "run api_key inp api thr fs =
     (case confident_subset thr (ofile (final inp api fs)) of
        Inl e \<Rightarrow> \<lparr>status = Some e, after = fs\<lparr>out_file := ofile (final inp api fs)\<rparr>,
                  events = log (final inp api fs), api_calls = calls (final inp api fs)\<rparr>
      | Inr sub \<Rightarrow> \<lparr>status = None,
                  after = \<lparr>out_file = ofile (final inp api fs), subset_file = sub\<rparr>,
                  events = log (final inp api fs), api_calls = calls (final inp api fs)\<rparr>)"
  using assms by (simp add: run_def final_def Let_def split: sum.splits)


lemma final_file:
  "\<exists>outs. map row_id outs =
       [i \<leftarrow> [0..<length (rows inp)]. int i \<notin> load_done_ids (out_file fs)] \<and>
     ofile (final inp api fs) =
       out_file fs @ (if outs \<noteq> [] \<and> out_file fs = [] then [HEADER] else []) @ map cells outs \<and>
     writes (log (final inp api fs)) = map row_id outs"
  using loop_file [where irs = "zip [0..<length (rows inp)] (rows inp)"
      and done_ids = "load_done_ids (out_file fs)" and api = api and cols = "columns inp"
      and s = "\<lparr>ofile = out_file fs, writer = False, calls = 0, log = []\<rparr>"]
  by (simp add: final_def)







lemma run_empty:
  "run key0 empty_table api thr no_files =
     \<lparr>status = Some EmptyDataError, after = no_files, events = [], api_calls = 0\<rparr>"
  by (simp add: run_def key0_def empty_table_def no_files_def asc_def load_done_ids_def
      scanned_ids_def confident_subset_def)













lemma run_status:
  assumes "resumable (length (rows inp)) (out_file fs)"
  shows "status (run api_key inp api thr fs) =
     (if api_key = [] then Some ConfigurationError
      else if asc ''title'' \<notin> set (columns inp) \<or> asc ''content'' \<notin> set (columns inp)
        then Some InputSchemaError
      else if rows inp = [] \<and> out_file fs = [] then Some EmptyDataError
      else None)"
proof (cases "api_key = [] \<or> asc ''title'' \<notin> set (columns inp) \<or> asc ''content'' \<notin> set (columns inp)")
  case True
  then show ?thesis by (auto simp: run_def)
next
  case False
  then have k: "api_key \<noteq> []" "asc ''title'' \<in> set (columns inp)"
    "asc ''content'' \<in> set (columns inp)" by auto
  let ?f = "out_file fs"
  let ?f' = "ofile (final inp api fs)"
  obtain outs where outs:
    "map row_id outs = [i \<leftarrow> [0..<length (rows inp)]. int i \<notin> load_done_ids ?f]"
    "?f' = ?f @ (if outs \<noteq> [] \<and> ?f = [] then [HEADER] else []) @ map cells outs"
    using final_file [where inp = inp and fs = fs and api = api] by blast
  have fr: "list_all full_row (map cells outs)"
    by (simp add: list_all_iff full_row_cells)
  show ?thesis
  proof (cases "?f = []")
    case True
    then have "load_done_ids ?f = {}" by (simp add: load_done_ids_def scanned_ids_def)
    with outs(1) have "length (map row_id outs) = length [0..<length (rows inp)]"
      by simp
    then have len: "length outs = length (rows inp)" by simp
    show ?thesis
    proof (cases "rows inp = []")
      case True
      with len have "outs = []" by simp
      with outs(2) \<open>?f = []\<close> have "?f' = []" by simp
      then show ?thesis
        using k True \<open>?f = []\<close> by (simp add: run_final [OF k] confident_subset_def)
    next
      case False
      with len have "outs \<noteq> []" by auto
      with outs(2) \<open>?f = []\<close> have "?f' = HEADER # map cells outs" by simp
      then have "confident_subset thr ?f' = Inr (HEADER # filter (confident thr) (map cells outs))"
        using fr by (simp add: confident_subset_def)
      then show ?thesis using k False by (simp add: run_final [OF k])
    qed
  next
    case False
    with assms have w: "hd ?f = HEADER" "list_all full_row (tl ?f)"
      by (simp_all add: resumable_def)
    from False w(1) obtain data where f: "?f = HEADER # data" by (cases ?f) auto
    with outs(2) have "?f' = HEADER # (data @ map cells outs)" by simp
    moreover have "list_all full_row (data @ map cells outs)"
      using w(2) fr by (simp add: f)
    ultimately have "confident_subset thr ?f' =
        Inr (HEADER # filter (confident thr) (data @ map cells outs))"
      by (simp add: confident_subset_def)
    then show ?thesis using k False by (simp add: run_final [OF k])
  qed
qed







text \<open>
  Claim C6. The claim asks that a run halts with a fatal error, with nothing written,
  in two cases only: no API key, or a missing column. On a table with both columns
  and no rows, with an API key and no output file yet, the run passes both guards,
  writes nothing, and halts at \<open>pd.read_csv\<close> of the empty output file with
  \<open>EmptyDataError\<close>; the subset file is not written.
\<close>

theorem run_empty_table_halts:
  "key0 \<noteq> [] \<and> asc ''title'' \<in> set (columns empty_table) \<and>
   asc ''content'' \<in> set (columns empty_table) \<and>
   run key0 empty_table (\<lambda>n. Raises) (3 / 5) no_files =
     \<lparr>status = Some EmptyDataError, after = no_files, events = [], api_calls = 0\<rparr>"
  by (simp add: run_empty) (simp add: key0_def empty_table_def asc_def)

theorem run_empty_table_halts_witness:
  "status (run key0 empty_table (\<lambda>n. Raises) (3 / 5) no_files) = Some EmptyDataError \<and>
   after (run key0 empty_table (\<lambda>n. Raises) (3 / 5) no_files) = no_files"
  using run_empty_table_halts by simp

end
